theory Spec2Isabelle
  imports Complex_Main
begin

section \<open>JavaScript numbers\<close>

text \<open>
  The calculator computes with JavaScript numbers. A number is modelled as a finite
  real, one of the two infinities, or NaN. Arithmetic on finite values is exact:
  the rounding of IEEE doubles and overflow to infinity are not modelled, and there
  is one zero, which behaves as \<open>+0\<close>. Division by zero, products of zero and
  infinity and differences of infinities give the values JavaScript gives.
\<close>

datatype jsnum = Fin real | PosInf | NegInf | NaN

instantiation jsnum :: "{zero, one, plus, uminus, minus, times, inverse, ord}"
begin

definition zero_jsnum :: jsnum where
  "0 = Fin 0"

definition one_jsnum :: jsnum where
  "1 = Fin 1"

fun plus_jsnum :: "jsnum \<Rightarrow> jsnum \<Rightarrow> jsnum" where
  "Fin x + Fin y = Fin (x + y)"
| "NaN + b = NaN"
| "a + NaN = NaN"
| "PosInf + NegInf = NaN"
| "NegInf + PosInf = NaN"
| "PosInf + b = PosInf"
| "a + PosInf = PosInf"
| "NegInf + b = NegInf"
| "a + NegInf = NegInf"

fun uminus_jsnum :: "jsnum \<Rightarrow> jsnum" where
  "- Fin x = Fin (- x)"
| "- PosInf = NegInf"
| "- NegInf = PosInf"
| "- NaN = NaN"

definition minus_jsnum :: "jsnum \<Rightarrow> jsnum \<Rightarrow> jsnum" where
  "(a :: jsnum) - b = a + (- b)"

fun times_jsnum :: "jsnum \<Rightarrow> jsnum \<Rightarrow> jsnum" where
  "Fin x * Fin y = Fin (x * y)"
| "NaN * b = NaN"
| "a * NaN = NaN"
| "Fin x * PosInf = (if x = 0 then NaN else if 0 < x then PosInf else NegInf)"
| "Fin x * NegInf = (if x = 0 then NaN else if 0 < x then NegInf else PosInf)"
| "PosInf * Fin y = (if y = 0 then NaN else if 0 < y then PosInf else NegInf)"
| "NegInf * Fin y = (if y = 0 then NaN else if 0 < y then NegInf else PosInf)"
| "PosInf * PosInf = PosInf"
| "PosInf * NegInf = NegInf"
| "NegInf * PosInf = NegInf"
| "NegInf * NegInf = PosInf"

fun divide_jsnum :: "jsnum \<Rightarrow> jsnum \<Rightarrow> jsnum" where
  "Fin x div Fin y =
     (if y = 0 then (if x = 0 then NaN else if 0 < x then PosInf else NegInf)
      else Fin (x / y))"
| "NaN div b = NaN"
| "a div NaN = NaN"
| "Fin x div PosInf = Fin 0"
| "Fin x div NegInf = Fin 0"
| "PosInf div Fin y = (if 0 \<le> y then PosInf else NegInf)"
| "NegInf div Fin y = (if 0 \<le> y then NegInf else PosInf)"
| "PosInf div b = NaN"
| "NegInf div b = NaN"

definition inverse_jsnum :: "jsnum \<Rightarrow> jsnum" where
  "inverse a = 1 div (a :: jsnum)"

text \<open>Comparisons with NaN are false, as in JavaScript.\<close>

fun less_jsnum :: "jsnum \<Rightarrow> jsnum \<Rightarrow> bool" where
  "Fin x < Fin y \<longleftrightarrow> x < y"
| "NaN < b \<longleftrightarrow> False"
| "a < NaN \<longleftrightarrow> False"
| "a < NegInf \<longleftrightarrow> False"
| "PosInf < b \<longleftrightarrow> False"
| "NegInf < b \<longleftrightarrow> True"
| "a < PosInf \<longleftrightarrow> True"

definition less_eq_jsnum :: "jsnum \<Rightarrow> jsnum \<Rightarrow> bool" where
  "(a :: jsnum) \<le> b \<longleftrightarrow> a < b \<or> (a = b \<and> a \<noteq> NaN)"

instance ..

end

text \<open>
  Exact addition and multiplication stay associative on the extended values, so
  numerals (\<open>12\<close>, \<open>100\<close>) and powers with a natural exponent are available on
  \<^typ>\<open>jsnum\<close>.
\<close>

instance jsnum :: semigroup_add
proof
  fix a b c :: jsnum
  show "a + b + c = a + (b + c)"
    by (cases a; cases b; cases c) simp_all
qed

instance jsnum :: numeral ..

instance jsnum :: comm_monoid_mult
proof
  fix a b c :: jsnum
  show "a * b * c = a * (b * c)"
    by (cases a; cases b; cases c) (auto simp: zero_less_mult_iff mult_less_0_iff not_less)
  show "a * b = b * a"
    by (cases a; cases b) (simp_all add: mult.commute)
  show "1 * a = a"
    by (cases a) (simp_all add: one_jsnum_def)
qed

definition is_finite :: "jsnum \<Rightarrow> bool" where
  "is_finite a = (case a of Fin x \<Rightarrow> True | _ \<Rightarrow> False)"

text \<open>\<open>Math.max(a, b)\<close>: NaN when an argument is NaN, the larger argument otherwise.\<close>

definition Math_max :: "jsnum \<Rightarrow> jsnum \<Rightarrow> jsnum" where
  "Math_max a b = (if a = NaN \<or> b = NaN then NaN else if a < b then b else a)"

text \<open>\<open>Math.round(a)\<close>: the nearest integer, a tie going up.\<close>

definition Math_round :: "jsnum \<Rightarrow> jsnum" where
  "Math_round a = (case a of Fin x \<Rightarrow> Fin (of_int \<lfloor>x + 1 / 2\<rfloor>) | _ \<Rightarrow> a)"

definition is_integral :: "real \<Rightarrow> bool" where
  "is_integral e \<longleftrightarrow> of_int \<lfloor>e\<rfloor> = e"

text \<open>
  \<open>Math.pow(base, exponent)\<close>, case by case as ECMAScript's \<open>Number::exponentiate\<close>
  lists them: a NaN exponent, a zero exponent, a NaN base, an infinite base, a zero
  base, an infinite exponent, a negative base with a fractional exponent, and the
  ordinary power.
\<close>

definition Math_pow :: "jsnum \<Rightarrow> jsnum \<Rightarrow> jsnum" where
  "Math_pow base exponent =
     (case exponent of
        NaN \<Rightarrow> NaN
      | Fin e \<Rightarrow>
          if e = 0 then Fin 1
          else (case base of
                  NaN \<Rightarrow> NaN
                | PosInf \<Rightarrow> if 0 < e then PosInf else Fin 0
                | NegInf \<Rightarrow>
                    if 0 < e then (if is_integral e \<and> odd \<lfloor>e\<rfloor> then NegInf else PosInf)
                    else Fin 0
                | Fin x \<Rightarrow>
                    if x = 0 then (if 0 < e then Fin 0 else PosInf)
                    else if is_integral e then Fin (x powi \<lfloor>e\<rfloor>)
                    else if x < 0 then NaN
                    else Fin (x powr e))
      | PosInf \<Rightarrow>
          (case base of
             NaN \<Rightarrow> NaN
           | Fin x \<Rightarrow> if 1 < \<bar>x\<bar> then PosInf else if \<bar>x\<bar> = 1 then NaN else Fin 0
           | _ \<Rightarrow> PosInf)
      | NegInf \<Rightarrow>
          (case base of
             NaN \<Rightarrow> NaN
           | Fin x \<Rightarrow> if 1 < \<bar>x\<bar> then Fin 0 else if \<bar>x\<bar> = 1 then NaN else PosInf
           | _ \<Rightarrow> Fin 0))"

section \<open>The cash-flow schedule\<close>

text \<open>
  One yearly record of the schedule. The \<open>year\<close> field holds the loop counter, an
  integer from 1 to 30, kept as a natural number.
\<close>

record cashFlowEntry =
  year :: nat
  rentalIncome :: jsnum
  operatingExpenses :: jsnum
  mortgagePayment :: jsnum
  cashFlow :: jsnum

text \<open>
  The \<open>for (let year = 1; year <= 30; year++)\<close> loop of \<open>generateCashFlowSchedule\<close>:
  it pushes the record of the year, then raises the rent by the annual increase and
  the operating expenses by the fixed 2 percent.
\<close>

function generateCashFlowSchedule_loop ::
  "nat \<Rightarrow> jsnum \<Rightarrow> jsnum \<Rightarrow> jsnum \<Rightarrow> jsnum \<Rightarrow> cashFlowEntry list \<Rightarrow> cashFlowEntry list" where
  "generateCashFlowSchedule_loop yr annualRent annualOperatingExpenses annualMortgagePayment
       annualRentIncrease schedule =
     (if yr \<le> 30 then
        (let annualCashFlow = annualRent - annualOperatingExpenses - annualMortgagePayment
         in generateCashFlowSchedule_loop (yr + 1)
              (annualRent * (1 + (annualRentIncrease / 100)))
              (annualOperatingExpenses * 1.02)
              annualMortgagePayment annualRentIncrease
              (schedule @
                 [\<lparr>year = yr, rentalIncome = annualRent,
                   operatingExpenses = annualOperatingExpenses,
                   mortgagePayment = annualMortgagePayment,
                   cashFlow = annualCashFlow\<rparr>]))
      else schedule)"
  by pat_completeness auto
termination
  by (relation "measure (\<lambda>(yr, _). 31 - yr)") auto

declare generateCashFlowSchedule_loop.simps [simp del]

text \<open>
  \<open>generateCashFlowSchedule\<close> returns the object \<open>{cashFlowSchedule, monthlyPayment}\<close>,
  here the pair of the two.
\<close>

definition generateCashFlowSchedule ::
  "jsnum \<Rightarrow> jsnum \<Rightarrow> jsnum \<Rightarrow> jsnum \<Rightarrow> jsnum \<Rightarrow> jsnum \<Rightarrow> cashFlowEntry list \<times> jsnum" where
  "generateCashFlowSchedule principal' annualInterestRate amortizationYears
       monthlyRentAfterVacancy monthlyOperatingExpenses annualRentIncrease =
     (let annualRent = monthlyRentAfterVacancy * 12;
          annualOperatingExpenses = monthlyOperatingExpenses * 12;
          monthlyInterestRate = (annualInterestRate / 100) / 12;
          totalPayments = amortizationYears * 12;
          monthlyPayment =
            (if annualInterestRate = 0 then principal' / totalPayments
             else principal' *
                    (monthlyInterestRate * Math_pow (1 + monthlyInterestRate) totalPayments) /
                    (Math_pow (1 + monthlyInterestRate) totalPayments - 1));
          annualMortgagePayment = monthlyPayment * 12
      in (generateCashFlowSchedule_loop 1 annualRent annualOperatingExpenses
            annualMortgagePayment annualRentIncrease [],
          monthlyPayment))"

section \<open>Inputs and results\<close>

datatype downPaymentKind = Amount | Percent

text \<open>
  The \<open>inputs\<close> state of the component. The field \<open>term\<close> of the source is
  \<open>termYears\<close> here; \<open>propertyType\<close> is optional and takes no part in the
  calculation. A field left blank holds the empty string in the source; the effect
  that runs \<open>calculateResults\<close> returns early while any field is blank, so the
  calculation only ever sees numbers, and every \<open>typeof x === 'number' ? x : 0\<close> of
  the source takes its first branch.
\<close>

record inputs =
  purchasePrice :: jsnum
  downPayment :: jsnum
  downPaymentType :: downPaymentKind
  closingCosts :: jsnum
  renovationCosts :: jsnum
  interestRate :: jsnum
  amortizationPeriod :: jsnum
  termYears :: jsnum
  monthlyRent :: jsnum
  vacancyRate :: jsnum
  annualRentIncrease :: jsnum
  propertyTaxes :: jsnum
  insurance :: jsnum
  condoFees :: jsnum
  propertyManagement :: jsnum
  maintenance :: jsnum
  utilities :: jsnum
  otherExpenses :: jsnum
  propertyType :: "string option"

text \<open>The initial value of the \<open>inputs\<close> state.\<close>

definition defaultInputs :: inputs where
  "defaultInputs =
     \<lparr>purchasePrice = 500000, downPayment = 100000, downPaymentType = Amount,
      closingCosts = 5000, renovationCosts = 0,
      interestRate = 5.5, amortizationPeriod = 25, termYears = 5,
      monthlyRent = 2500, vacancyRate = 5, annualRentIncrease = 2,
      propertyTaxes = 5000, insurance = 1500, condoFees = 0,
      propertyManagement = 8, maintenance = 5, utilities = 0, otherExpenses = 0,
      propertyType = None\<rparr>"

section \<open>calculateResults\<close>

text \<open>
  The local constants of \<open>calculateResults\<close> that later statements refer to are
  definitions of their own, each a function of the inputs. The stated percentage
  (\<open>downPaymentPercent\<close> of the source) is computed and never read again in the
  amount branch, and is the input itself in the percent branch.
\<close>

definition downPaymentAmount :: "inputs \<Rightarrow> jsnum" where
  "downPaymentAmount inputs =
     (case downPaymentType inputs of
        Amount \<Rightarrow> downPayment inputs
      | Percent \<Rightarrow> (purchasePrice inputs * downPayment inputs) / 100)"

definition minimumDownPayment :: "inputs \<Rightarrow> jsnum" where
  "minimumDownPayment inputs = (20 / 100) * purchasePrice inputs"

definition actualDownPayment :: "inputs \<Rightarrow> jsnum" where
  "actualDownPayment inputs = Math_max (downPaymentAmount inputs) (minimumDownPayment inputs)"

definition actualDownPaymentPercent :: "inputs \<Rightarrow> jsnum" where
  "actualDownPaymentPercent inputs = (actualDownPayment inputs / purchasePrice inputs) * 100"

definition monthlyOperatingExpenses :: "inputs \<Rightarrow> jsnum" where
  "monthlyOperatingExpenses inputs =
     (let propertyTaxesMonthly = propertyTaxes inputs / 12;
          insuranceMonthly = insurance inputs / 12;
          propertyManagementFee = monthlyRent inputs * propertyManagement inputs / 100;
          maintenanceCosts = monthlyRent inputs * maintenance inputs / 100
      in propertyTaxesMonthly + insuranceMonthly + condoFees inputs +
         propertyManagementFee + maintenanceCosts + utilities inputs + otherExpenses inputs)"

definition initialInvestment :: "inputs \<Rightarrow> jsnum" where
  "initialInvestment inputs =
     actualDownPayment inputs + closingCosts inputs + renovationCosts inputs"

text \<open>The \<open>results\<close> state, with the keys of the object passed to \<open>setResults\<close>.\<close>

record results =
  mortgageAmount :: jsnum
  downPaymentPercent :: jsnum
  totalMortgage :: jsnum
  monthlyPayment :: jsnum
  monthlyRentAfterVacancy :: jsnum
  monthlyExpenses :: jsnum
  monthlyCashFlow :: jsnum
  annualCashFlow :: jsnum
  totalMonthlyExpenses :: jsnum
  cashOnCash :: jsnum
  capRate :: jsnum
  grossRentMultiplier :: jsnum
  breakEvenOccupancy :: jsnum
  netOperatingIncome :: jsnum
  expenseRatio :: jsnum
  cashFlowSchedule :: "cashFlowEntry list"

text \<open>
  \<open>calculateResults\<close> has one path: it reads the inputs, computes every figure and
  ends in \<open>setResults\<close>. The model returns the object handed to \<open>setResults\<close>.
\<close>

definition calculateResults :: "inputs \<Rightarrow> results" where
  "calculateResults inputs =
     (let mortgageAmount = purchasePrice inputs - actualDownPayment inputs;
          monthlyRentAfterVacancy = monthlyRent inputs * (1 - vacancyRate inputs / 100);
          cashFlowData =
            generateCashFlowSchedule mortgageAmount (interestRate inputs)
              (amortizationPeriod inputs) monthlyRentAfterVacancy
              (monthlyOperatingExpenses inputs) (annualRentIncrease inputs);
          monthlyPayment = snd cashFlowData;
          totalMonthlyExpenses = monthlyOperatingExpenses inputs + monthlyPayment;
          monthlyCashFlow = monthlyRentAfterVacancy - totalMonthlyExpenses;
          annualCashFlow = monthlyCashFlow * 12;
          cashOnCash =
            (if 0 < initialInvestment inputs
             then (annualCashFlow / initialInvestment inputs) * 100 else 0);
          annualRentalIncome = monthlyRentAfterVacancy * 12;
          annualOperatingExpenses = monthlyOperatingExpenses inputs * 12;
          netOperatingIncome = annualRentalIncome - annualOperatingExpenses;
          capRate = (netOperatingIncome / purchasePrice inputs) * 100;
          grossRentMultiplier = purchasePrice inputs / (monthlyRent inputs * 12);
          expenseRatio =
            ((monthlyOperatingExpenses inputs * 12) / (monthlyRent inputs * 12)) * 100;
          breakEvenOccupancy = (totalMonthlyExpenses / monthlyRent inputs) * 100
      in \<lparr>mortgageAmount = mortgageAmount,
          downPaymentPercent = actualDownPaymentPercent inputs,
          totalMortgage = mortgageAmount,
          monthlyPayment = monthlyPayment,
          monthlyRentAfterVacancy = monthlyRentAfterVacancy,
          monthlyExpenses = monthlyOperatingExpenses inputs,
          monthlyCashFlow = monthlyCashFlow,
          annualCashFlow = annualCashFlow,
          totalMonthlyExpenses = totalMonthlyExpenses,
          cashOnCash = cashOnCash,
          capRate = capRate,
          grossRentMultiplier = grossRentMultiplier,
          breakEvenOccupancy = breakEvenOccupancy,
          netOperatingIncome = netOperatingIncome,
          expenseRatio = expenseRatio,
          cashFlowSchedule = fst cashFlowData\<rparr>)"

section \<open>Switching the down-payment unit\<close>

text \<open>
  \<open>handleInputChange('downPaymentType', value)\<close>, the call made by the unit selector:
  the new unit is stored and the down payment is converted, to a whole percentage of
  the price or to an amount in whole hundreds. The price and the down payment are
  numbers here; a blank field, which the source reads as 0, is not modelled.
\<close>

definition handleInputChange_downPaymentType :: "downPaymentKind \<Rightarrow> inputs \<Rightarrow> inputs" where
  "handleInputChange_downPaymentType v inputs =
     (let updatedInputs = inputs\<lparr>downPaymentType := v\<rparr>
      in (case v of
            Percent \<Rightarrow>
              updatedInputs\<lparr>downPayment :=
                Math_round ((downPayment inputs / purchasePrice inputs) * 100)\<rparr>
          | Amount \<Rightarrow>
              updatedInputs\<lparr>downPayment :=
                Math_round (purchasePrice inputs * (downPayment inputs / 100) / 100) * 100\<rparr>))"

section \<open>Arithmetic on finite values\<close>

lemma numeral_jsnum [simp]: "(numeral k :: jsnum) = Fin (numeral k)"
proof (induction k)
  case One
  show ?case by (simp add: one_jsnum_def)
next
  case (Bit0 k)
  have "(numeral (num.Bit0 k) :: jsnum) = numeral k + numeral k"
    by (rule numeral_Bit0)
  also have "\<dots> = Fin (numeral k + numeral k)"
    by (simp only: Bit0 plus_jsnum.simps)
  also have "numeral k + numeral k = (numeral (num.Bit0 k) :: real)"
    by (rule numeral_Bit0 [symmetric])
  finally show ?case .
next
  case (Bit1 k)
  have "(numeral (num.Bit1 k) :: jsnum) = numeral k + numeral k + 1"
    by (rule numeral_Bit1)
  also have "\<dots> = Fin (numeral k + numeral k + 1)"
    by (simp only: Bit1 plus_jsnum.simps one_jsnum_def)
  also have "numeral k + numeral k + 1 = (numeral (num.Bit1 k) :: real)"
    by (rule numeral_Bit1 [symmetric])
  finally show ?case .
qed

lemma power_Fin [simp]: "Fin x ^ n = Fin (x ^ n)"
  by (induction n) (simp_all add: one_jsnum_def)

lemma minus_Fin [simp]: "Fin x - Fin y = Fin (x - y)"
  by (simp add: minus_jsnum_def)

lemma one_Fin [simp]: "(1 :: jsnum) = Fin 1"
  by (simp add: one_jsnum_def)

lemma zero_Fin [simp]: "(0 :: jsnum) = Fin 0"
  by (simp add: zero_jsnum_def)

section \<open>The schedule loop\<close>

lemma loop_year:
  "yr \<le> 31 \<Longrightarrow>
   map year (generateCashFlowSchedule_loop yr R E M g acc) = map year acc @ [yr..<31]"
proof (induction yr R E M g acc rule: generateCashFlowSchedule_loop.induct)
  case (1 yr R E M g acc)
  show ?case
  proof (cases "yr \<le> 30")
    case True
    then have "map year (generateCashFlowSchedule_loop yr R E M g acc) =
        map year acc @ yr # [Suc yr..<31]"
      using "1.IH" [OF True refl] 
      by (subst generateCashFlowSchedule_loop.simps) (simp add: Let_def)
    with True show ?thesis by (simp add: upt_conv_Cons)
  next
    case False
    with "1.prems" have "yr = 31" by simp
    then show ?thesis
      by (subst generateCashFlowSchedule_loop.simps) simp
  qed
qed

lemma loop_mortgagePayment:
  "map mortgagePayment (generateCashFlowSchedule_loop yr R E M g acc) =
     map mortgagePayment acc @ replicate (31 - yr) M"
proof (induction yr R E M g acc rule: generateCashFlowSchedule_loop.induct)
  case (1 yr R E M g acc)
  show ?case
  proof (cases "yr \<le> 30")
    case True
    then have "31 - yr = Suc (31 - (yr + 1))" by simp
    then show ?thesis
      using "1.IH" [OF True refl] True
      by (subst generateCashFlowSchedule_loop.simps)
         (simp add: Let_def)
  next
    case False
    then show ?thesis
      by (subst generateCashFlowSchedule_loop.simps) simp
  qed
qed

lemma loop_rentalIncome:
  "map rentalIncome (generateCashFlowSchedule_loop yr R E M g acc) =
     map rentalIncome acc @ map (\<lambda>k. R * (1 + g / 100) ^ k) [0..<31 - yr]"
proof (induction yr R E M g acc rule: generateCashFlowSchedule_loop.induct)
  case (1 yr R E M g acc)
  show ?case
  proof (cases "yr \<le> 30")
    case True
    then have n: "31 - yr = Suc (31 - (yr + 1))" by simp
    have "map (\<lambda>k. R * (1 + g / 100) ^ k) [0..<Suc (31 - (yr + 1))] =
          R # map (\<lambda>k. R * (1 + g / 100) * (1 + g / 100) ^ k) [0..<31 - (yr + 1)]"
      by (simp only: upt_conv_Cons [of 0] zero_less_Suc list.map map_Suc_upt [symmetric]
            map_map o_def power_Suc power_0 mult.assoc mult_1_right)
    then show ?thesis
      using "1.IH" [OF True refl] True
      by (subst generateCashFlowSchedule_loop.simps) (simp add: Let_def n)
  next
    case False
    then show ?thesis
      by (subst generateCashFlowSchedule_loop.simps) simp
  qed
qed

lemma loop_operatingExpenses:
  "map operatingExpenses (generateCashFlowSchedule_loop yr R E M g acc) =
     map operatingExpenses acc @ map (\<lambda>k. E * 1.02 ^ k) [0..<31 - yr]"
proof (induction yr R E M g acc rule: generateCashFlowSchedule_loop.induct)
  case (1 yr R E M g acc)
  show ?case
  proof (cases "yr \<le> 30")
    case True
    then have n: "31 - yr = Suc (31 - (yr + 1))" by simp
    have "map (\<lambda>k. E * 1.02 ^ k) [0..<Suc (31 - (yr + 1))] =
          E # map (\<lambda>k. E * 1.02 * 1.02 ^ k) [0..<31 - (yr + 1)]"
      by (simp only: upt_conv_Cons [of 0] zero_less_Suc list.map map_Suc_upt [symmetric]
            map_map o_def power_Suc power_0 mult.assoc mult_1_right)
    then show ?thesis
      using "1.IH" [OF True refl] True
      by (subst generateCashFlowSchedule_loop.simps) (simp add: Let_def n)
  next
    case False
    then show ?thesis
      by (subst generateCashFlowSchedule_loop.simps) simp
  qed
qed

lemma loop_cashFlow:
  "map cashFlow acc = map (\<lambda>e. rentalIncome e - operatingExpenses e - M) acc \<Longrightarrow>
   map cashFlow (generateCashFlowSchedule_loop yr R E M g acc) =
     map (\<lambda>e. rentalIncome e - operatingExpenses e - M)
       (generateCashFlowSchedule_loop yr R E M g acc)"
proof (induction yr R E M g acc rule: generateCashFlowSchedule_loop.induct)
  case (1 yr R E M g acc)
  show ?case
  proof (cases "yr \<le> 30")
    case True
    show ?thesis
      using "1.IH" [OF True refl] "1.prems" True
      by (subst (1 2) generateCashFlowSchedule_loop.simps) (simp add: Let_def)
  next
    case False
    then show ?thesis
      using "1.prems" by (subst (1 2) generateCashFlowSchedule_loop.simps) simp
  qed
qed

lemma schedule_unfold:
  "cashFlowSchedule (calculateResults inputs) =
     generateCashFlowSchedule_loop 1
       (monthlyRentAfterVacancy (calculateResults inputs) * 12)
       (monthlyOperatingExpenses inputs * 12)
       (monthlyPayment (calculateResults inputs) * 12)
       (annualRentIncrease inputs) []"
  by (simp add: calculateResults_def generateCashFlowSchedule_def Let_def)

lemma schedule_year:
  "map year (cashFlowSchedule (calculateResults inputs)) = [1..<31]"
  by (subst schedule_unfold) (simp add: loop_year)

lemma schedule_length: "length (cashFlowSchedule (calculateResults inputs)) = 30"
proof -
  have "length (map year (cashFlowSchedule (calculateResults inputs))) = 30"
    by (simp add: schedule_year)
  then show ?thesis by (simp only: length_map)
qed

lemma schedule_mortgagePayment:
  "map mortgagePayment (cashFlowSchedule (calculateResults inputs)) =
     replicate 30 (monthlyPayment (calculateResults inputs) * 12)"
  by (subst schedule_unfold) (simp add: loop_mortgagePayment)

lemma schedule_rentalIncome:
  "map rentalIncome (cashFlowSchedule (calculateResults inputs)) =
     map (\<lambda>k. monthlyRentAfterVacancy (calculateResults inputs) * 12 *
                (1 + annualRentIncrease inputs / 100) ^ k) [0..<30]"
  by (subst schedule_unfold) (simp add: loop_rentalIncome)

lemma schedule_operatingExpenses:
  "map operatingExpenses (cashFlowSchedule (calculateResults inputs)) =
     map (\<lambda>k. monthlyOperatingExpenses inputs * 12 * 1.02 ^ k) [0..<30]"
  by (subst schedule_unfold) (simp add: loop_operatingExpenses)

lemma schedule_cashFlow:
  "map cashFlow (cashFlowSchedule (calculateResults inputs)) =
     map (\<lambda>e. rentalIncome e - operatingExpenses e -
                monthlyPayment (calculateResults inputs) * 12)
       (cashFlowSchedule (calculateResults inputs))"
  by (subst (1 2) schedule_unfold) (rule loop_cashFlow, simp)

section \<open>The schedule\<close>

text \<open>
  Claim C3. For every input the schedule of \<open>calculateResults\<close> has exactly 30
  entries, their years are 1, 2, ..., 30 in this order (strictly increasing), and
  every entry's mortgage payment is the monthly payment times 12.
\<close>

theorem cashFlowSchedule_shape:
  "length (cashFlowSchedule (calculateResults inputs)) = 30 \<and>
   map year (cashFlowSchedule (calculateResults inputs)) = [1..<31] \<and>
   sorted_wrt (<) (map year (cashFlowSchedule (calculateResults inputs))) \<and>
   map mortgagePayment (cashFlowSchedule (calculateResults inputs)) =
     replicate 30 (monthlyPayment (calculateResults inputs) * 12)"
  by (simp only: schedule_length schedule_year schedule_mortgagePayment sorted_wrt_upt
        simp_thms)

text \<open>
  Claim C4. For every input and every year \<open>y\<close> from 1 to 30, the entry of year
  \<open>y\<close> holds the first year's rent after vacancy compounded \<open>y - 1\<close> times by the
  annual rent increase, the first year's operating expenses compounded \<open>y - 1\<close>
  times by 2 percent, and as cash flow the rent less the expenses less twelve
  monthly payments. The arithmetic is that of the program's numbers.
\<close>

theorem cashFlowSchedule_entries:
  assumes "1 \<le> y" and "y \<le> 30"
  shows "let r = calculateResults inputs; e = cashFlowSchedule r ! (y - 1) in
           year e = y \<and>
           rentalIncome e =
             monthlyRentAfterVacancy r * 12 * (1 + annualRentIncrease inputs / 100) ^ (y - 1) \<and>
           operatingExpenses e = monthlyOperatingExpenses inputs * 12 * 1.02 ^ (y - 1) \<and>
           cashFlow e = rentalIncome e - operatingExpenses e - 12 * monthlyPayment r"
proof -
  let ?r = "calculateResults inputs"
  let ?s = "cashFlowSchedule ?r"
  from assms have k: "y - 1 < length ?s" and k': "y - 1 < 30"
    by (simp_all add: schedule_length)
  have "year (?s ! (y - 1)) = map year ?s ! (y - 1)"
    using k by (rule nth_map [symmetric])
  also have "\<dots> = y"
    using assms by (simp only: schedule_year) simp
  finally have 1: "year (?s ! (y - 1)) = y" .
  have "rentalIncome (?s ! (y - 1)) = map rentalIncome ?s ! (y - 1)"
    using k by (rule nth_map [symmetric])
  also have "\<dots> = monthlyRentAfterVacancy ?r * 12 *
                      (1 + annualRentIncrease inputs / 100) ^ (y - 1)"
    using k' by (simp only: schedule_rentalIncome) simp
  finally have 2: "rentalIncome (?s ! (y - 1)) =
      monthlyRentAfterVacancy ?r * 12 * (1 + annualRentIncrease inputs / 100) ^ (y - 1)" .
  have "operatingExpenses (?s ! (y - 1)) = map operatingExpenses ?s ! (y - 1)"
    using k by (rule nth_map [symmetric])
  also have "\<dots> = monthlyOperatingExpenses inputs * 12 * 1.02 ^ (y - 1)"
    using k' by (simp only: schedule_operatingExpenses) simp
  finally have 3: "operatingExpenses (?s ! (y - 1)) =
      monthlyOperatingExpenses inputs * 12 * 1.02 ^ (y - 1)" .
  have "cashFlow (?s ! (y - 1)) = map cashFlow ?s ! (y - 1)"
    using k by (rule nth_map [symmetric])
  also have "\<dots> = rentalIncome (?s ! (y - 1)) - operatingExpenses (?s ! (y - 1)) -
                      monthlyPayment ?r * 12"
    using k by (simp only: schedule_cashFlow nth_map)
  also have "monthlyPayment ?r * 12 = 12 * monthlyPayment ?r"
    by (rule mult.commute)
  finally have 4: "cashFlow (?s ! (y - 1)) =
      rentalIncome (?s ! (y - 1)) - operatingExpenses (?s ! (y - 1)) - 12 * monthlyPayment ?r" .
  from 1 2 3 4 show ?thesis by (simp only: Let_def simp_thms)
qed

lemma eval_monthlyRentAfterVacancy:
  "monthlyRentAfterVacancy (calculateResults defaultInputs) = Fin 2375"
  by (simp add: calculateResults_def defaultInputs_def Let_def)

lemma eval_monthlyOperatingExpenses:
  "monthlyOperatingExpenses defaultInputs = Fin (2600 / 3)"
  by (simp add: monthlyOperatingExpenses_def defaultInputs_def Let_def)

theorem cashFlowSchedule_entries_witness:
  "(1::nat) \<le> 2 \<and> (2::nat) \<le> 30 \<and>
   year (cashFlowSchedule (calculateResults defaultInputs) ! 1) = 2 \<and>
   rentalIncome (cashFlowSchedule (calculateResults defaultInputs) ! 1) = Fin 29070 \<and>
   operatingExpenses (cashFlowSchedule (calculateResults defaultInputs) ! 1) = Fin 10608"
proof -
  have "annualRentIncrease defaultInputs = Fin 2"
    by (simp add: defaultInputs_def)
  then show ?thesis
    using cashFlowSchedule_entries [of 2 defaultInputs]
    by (simp add: Let_def eval_monthlyRentAfterVacancy eval_monthlyOperatingExpenses)
qed

section \<open>Division by zero\<close>

lemma div_zero_not_finite: "\<not> is_finite (a / Fin 0)"
  by (cases a) (simp_all add: is_finite_def)

lemma times_not_finite: "\<not> is_finite a \<Longrightarrow> c \<noteq> 0 \<Longrightarrow> \<not> is_finite (a * Fin c)"
  by (cases a) (simp_all add: is_finite_def)

text \<open>
  Claim C1 says that \<open>calculateResults\<close> stops and reports \<open>InvalidInput\<close> when the
  purchase price or the monthly rent is not positive, instead of returning results
  that hold non-finite values. The function has no such path. With the default
  inputs and a purchase price of 0 the reported down-payment percentage is
  \<open>Infinity\<close>; with a monthly rent of 0 the gross rent multiplier is \<open>Infinity\<close>.
\<close>

theorem calculateResults_division_by_zero_counterexample:
  "downPaymentPercent (calculateResults (defaultInputs\<lparr>purchasePrice := 0\<rparr>)) = PosInf \<and>
   grossRentMultiplier (calculateResults (defaultInputs\<lparr>monthlyRent := 0\<rparr>)) = PosInf"
  by (simp add: calculateResults_def defaultInputs_def Let_def actualDownPaymentPercent_def
        actualDownPayment_def downPaymentAmount_def minimumDownPayment_def Math_max_def)

text \<open>
  Claim C1 as amended. \<open>calculateResults\<close> returns results for every input. When the
  purchase price is 0, the reported down-payment percentage and the cap rate are
  not finite (NaN or an infinity); when the monthly rent is 0, the gross rent
  multiplier, the expense ratio and the break-even occupancy are not finite.
\<close>

theorem calculateResults_division_by_zero:
  "(purchasePrice inputs = 0 \<longrightarrow>
      \<not> is_finite (downPaymentPercent (calculateResults inputs)) \<and>
      \<not> is_finite (capRate (calculateResults inputs))) \<and>
   (monthlyRent inputs = 0 \<longrightarrow>
      \<not> is_finite (grossRentMultiplier (calculateResults inputs)) \<and>
      \<not> is_finite (expenseRatio (calculateResults inputs)) \<and>
      \<not> is_finite (breakEvenOccupancy (calculateResults inputs)))"
  by (simp add: calculateResults_def Let_def actualDownPaymentPercent_def
        div_zero_not_finite times_not_finite)

theorem calculateResults_division_by_zero_witness:
  "purchasePrice (defaultInputs\<lparr>purchasePrice := 0\<rparr>) = 0 \<and>
   \<not> is_finite (capRate (calculateResults (defaultInputs\<lparr>purchasePrice := 0\<rparr>))) \<and>
   monthlyRent (defaultInputs\<lparr>monthlyRent := 0\<rparr>) = 0 \<and>
   \<not> is_finite (breakEvenOccupancy (calculateResults (defaultInputs\<lparr>monthlyRent := 0\<rparr>)))"
  using calculateResults_division_by_zero [of "defaultInputs\<lparr>purchasePrice := 0\<rparr>"]
    calculateResults_division_by_zero [of "defaultInputs\<lparr>monthlyRent := 0\<rparr>"]
  by simp

section \<open>The effective down payment\<close>

text \<open>
  Claim C2. Whatever the unit of the down payment, the stated amount is the down
  payment itself (unit amount) or the price times the down payment over 100 (unit
  percent); the effective amount is the larger of the stated amount and 20 percent
  of the price; the reported percentage is the effective amount over the price
  times 100; the mortgage is the price less the effective amount. The first part
  states this in the program's arithmetic for every input, the second in real
  numbers for a finite down payment and a finite positive price.
\<close>

theorem effective_down_payment:
  "(let stated = (case downPaymentType inputs of
                    Amount \<Rightarrow> downPayment inputs
                  | Percent \<Rightarrow> purchasePrice inputs * downPayment inputs / 100);
        effective = Math_max stated (0.20 * purchasePrice inputs)
    in actualDownPayment inputs = effective \<and>
       downPaymentPercent (calculateResults inputs) = effective / purchasePrice inputs * 100 \<and>
       mortgageAmount (calculateResults inputs) = purchasePrice inputs - effective) \<and>
   (\<forall>p d. purchasePrice inputs = Fin p \<and> 0 < p \<and> downPayment inputs = Fin d \<longrightarrow>
      (let stated = (case downPaymentType inputs of Amount \<Rightarrow> d | Percent \<Rightarrow> p * d / 100);
           effective = max stated (0.20 * p)
       in actualDownPayment inputs = Fin effective \<and>
          downPaymentPercent (calculateResults inputs) = Fin (effective / p * 100) \<and>
          mortgageAmount (calculateResults inputs) = Fin (p - effective)))"
  by (cases "downPaymentType inputs")
     (auto simp add: calculateResults_def Let_def actualDownPaymentPercent_def
        actualDownPayment_def downPaymentAmount_def minimumDownPayment_def Math_max_def max_def)

theorem effective_down_payment_witness:
  "purchasePrice (defaultInputs\<lparr>downPayment := 50000\<rparr>) = Fin 500000 \<and> (0::real) < 500000 \<and>
   downPayment (defaultInputs\<lparr>downPayment := 50000\<rparr>) = Fin 50000 \<and>
   actualDownPayment (defaultInputs\<lparr>downPayment := 50000\<rparr>) = Fin 100000 \<and>
   downPaymentPercent (calculateResults (defaultInputs\<lparr>downPayment := 50000\<rparr>)) = Fin 20 \<and>
   mortgageAmount (calculateResults (defaultInputs\<lparr>downPayment := 50000\<rparr>)) = Fin 400000"
  using effective_down_payment [of "defaultInputs\<lparr>downPayment := 50000\<rparr>"]
  by (simp add: defaultInputs_def Let_def Math_max_def)

section \<open>Operating expenses\<close>

text \<open>
  Claim C8. The monthly operating expenses are a twelfth of the property taxes, a
  twelfth of the insurance, the condo fees, the management and maintenance
  percentages of the gross monthly rent, the utilities and the other expenses.
  The vacancy rate takes no part: changing it leaves the expenses as they are.
\<close>

theorem monthlyExpenses_formula:
  "monthlyExpenses (calculateResults inputs) =
     propertyTaxes inputs / 12 + insurance inputs / 12 + condoFees inputs +
     monthlyRent inputs * propertyManagement inputs / 100 +
     monthlyRent inputs * maintenance inputs / 100 +
     utilities inputs + otherExpenses inputs \<and>
   monthlyExpenses (calculateResults (inputs\<lparr>vacancyRate := v\<rparr>)) =
     monthlyExpenses (calculateResults inputs)"
  by (simp add: calculateResults_def Let_def monthlyOperatingExpenses_def)

section \<open>The monthly payment\<close>

lemma monthlyPayment_unfold:
  "monthlyPayment (calculateResults inputs) =
     snd (generateCashFlowSchedule (mortgageAmount (calculateResults inputs))
            (interestRate inputs) (amortizationPeriod inputs)
            (monthlyRentAfterVacancy (calculateResults inputs))
            (monthlyOperatingExpenses inputs) (annualRentIncrease inputs))"
  by (simp add: calculateResults_def Let_def)

lemma Math_pow_nat:
  "x \<noteq> 0 \<Longrightarrow> 0 < n \<Longrightarrow> Math_pow (Fin x) (Fin (real n)) = Fin (x ^ n)"
  by (simp add: Math_pow_def is_integral_def)

text \<open>
  Claim C5. With an interest rate of 0 the monthly payment is the mortgage amount
  over the number of payments. With any other rate it is the amortization formula
  \<open>P * (r * (1 + r)^n) / ((1 + r)^n - 1)\<close>, with \<open>r\<close> the monthly rate and \<open>n\<close> the
  number of payments, the power being \<open>Math.pow\<close>. For a finite mortgage, a
  positive rate and a positive whole number of years this is the formula in real
  numbers, whose denominator is not zero.
\<close>

theorem monthlyPayment_formula:
  "(interestRate inputs = 0 \<longrightarrow>
      monthlyPayment (calculateResults inputs) =
        mortgageAmount (calculateResults inputs) / (amortizationPeriod inputs * 12)) \<and>
   (interestRate inputs \<noteq> 0 \<longrightarrow>
      (let r = interestRate inputs / 100 / 12; n = amortizationPeriod inputs * 12
       in monthlyPayment (calculateResults inputs) =
            mortgageAmount (calculateResults inputs) * (r * Math_pow (1 + r) n) /
            (Math_pow (1 + r) n - 1))) \<and>
   (\<forall>m q a. mortgageAmount (calculateResults inputs) = Fin m \<and>
      interestRate inputs = Fin q \<and> 0 < q \<and>
      amortizationPeriod inputs = Fin (real a) \<and> 0 < a \<longrightarrow>
      (let r = q / 100 / 12; n = a * 12
       in monthlyPayment (calculateResults inputs) =
            Fin (m * (r * (1 + r) ^ n) / ((1 + r) ^ n - 1))))"
proof (intro conjI impI allI)
  assume "interestRate inputs = 0"
  then show "monthlyPayment (calculateResults inputs) =
      mortgageAmount (calculateResults inputs) / (amortizationPeriod inputs * 12)"
    by (subst monthlyPayment_unfold) (simp add: generateCashFlowSchedule_def Let_def)
next
  assume "interestRate inputs \<noteq> 0"
  then show "let r = interestRate inputs / 100 / 12; n = amortizationPeriod inputs * 12
       in monthlyPayment (calculateResults inputs) =
            mortgageAmount (calculateResults inputs) * (r * Math_pow (1 + r) n) /
            (Math_pow (1 + r) n - 1)"
    by (subst monthlyPayment_unfold) (simp add: generateCashFlowSchedule_def Let_def)
next
  fix m q :: real and a :: nat
  assume h: "mortgageAmount (calculateResults inputs) = Fin m \<and>
      interestRate inputs = Fin q \<and> 0 < q \<and>
      amortizationPeriod inputs = Fin (real a) \<and> 0 < a"
  define x where "x = 1 + q / 1200"
  from h have x: "1 < x" and n: "0 < a * 12" by (simp_all add: x_def)
  then have "1 < x ^ (a * 12)"
    by (intro one_less_power) simp_all
  then have nz: "x ^ (a * 12) \<noteq> 1" by simp
  have pw: "Math_pow (Fin x) (Fin (real a * 12)) = Fin (x ^ (a * 12))"
    using Math_pow_nat [of x "a * 12"] x n by simp
  have "monthlyPayment (calculateResults inputs) =
      Fin (m * (q / 1200 * x ^ (a * 12)) / (x ^ (a * 12) - 1))"
    using h nz
    by (subst monthlyPayment_unfold)
       (simp add: generateCashFlowSchedule_def Let_def pw x_def [symmetric])
  then show "let r = q / 100 / 12; n = a * 12
       in monthlyPayment (calculateResults inputs) =
            Fin (m * (r * (1 + r) ^ n) / ((1 + r) ^ n - 1))"
    by (simp add: Let_def x_def)
qed

lemma eval_mortgageAmount:
  "mortgageAmount (calculateResults (defaultInputs\<lparr>interestRate := q, amortizationPeriod := a\<rparr>)) =
     Fin 400000"
  by (simp add: calculateResults_def defaultInputs_def Let_def actualDownPayment_def
        downPaymentAmount_def minimumDownPayment_def Math_max_def)

theorem monthlyPayment_formula_witness:
  "interestRate (defaultInputs\<lparr>interestRate := 0, amortizationPeriod := 25\<rparr>) = 0 \<and>
   monthlyPayment (calculateResults (defaultInputs\<lparr>interestRate := 0, amortizationPeriod := 25\<rparr>)) =
     Fin (4000 / 3) \<and>
   interestRate (defaultInputs\<lparr>interestRate := 6, amortizationPeriod := 1\<rparr>) \<noteq> 0 \<and>
   (0::real) < 6 \<and> (0::nat) < 1 \<and>
   monthlyPayment (calculateResults (defaultInputs\<lparr>interestRate := 6, amortizationPeriod := 1\<rparr>)) =
     Fin (400000 * (0.005 * 1.005 ^ 12) / (1.005 ^ 12 - 1))"
proof -
  have 1: "interestRate (defaultInputs\<lparr>interestRate := q, amortizationPeriod := a\<rparr>) = q"
    and 2: "amortizationPeriod (defaultInputs\<lparr>interestRate := q, amortizationPeriod := a\<rparr>) = a"
    for q a
    by simp_all
  show ?thesis
    using monthlyPayment_formula [of "defaultInputs\<lparr>interestRate := 0, amortizationPeriod := 25\<rparr>"]
      monthlyPayment_formula [of "defaultInputs\<lparr>interestRate := 6, amortizationPeriod := 1\<rparr>",
        THEN conjunct2, THEN conjunct2, rule_format, of 400000 6 1]
    by (simp add: 1 2 eval_mortgageAmount Let_def)
qed

section \<open>Bounds on the down payment and the mortgage\<close>

lemma actualDownPayment_finite:
  assumes "purchasePrice inputs = Fin p" and "downPayment inputs = Fin d"
  shows "actualDownPayment inputs =
     Fin (max (case downPaymentType inputs of Amount \<Rightarrow> d | Percent \<Rightarrow> p * d / 100) (p / 5))"
  using assms
  by (cases "downPaymentType inputs")
     (simp_all add: actualDownPayment_def downPaymentAmount_def minimumDownPayment_def
        Math_max_def max_def)

text \<open>
  Claim C6. For a positive price and a down payment that is not negative, the
  reported effective down-payment percentage is a finite number, at least 20.
\<close>

theorem effective_percent_at_least_20:
  assumes "purchasePrice inputs = Fin p" and "0 < p"
    and "downPayment inputs = Fin d" and "0 \<le> d"
  shows "\<exists>x. downPaymentPercent (calculateResults inputs) = Fin x \<and> 20 \<le> x"
proof -
  define e where
    "e = max (case downPaymentType inputs of Amount \<Rightarrow> d | Percent \<Rightarrow> p * d / 100) (p / 5)"
  have a: "actualDownPayment inputs = Fin e"
    unfolding e_def using assms(1,3) by (rule actualDownPayment_finite)
  have "p / 5 \<le> e" by (simp add: e_def)
  then have "20 * p \<le> e * 100" by simp
  then have "20 \<le> e * 100 / p"
    using \<open>0 < p\<close> by (simp add: pos_le_divide_eq)
  moreover have "downPaymentPercent (calculateResults inputs) = Fin (e * 100 / p)"
    using assms(1,2) a
    by (simp add: calculateResults_def Let_def actualDownPaymentPercent_def)
  ultimately show ?thesis by blast
qed

theorem effective_percent_at_least_20_witness:
  "purchasePrice (defaultInputs\<lparr>downPayment := 0\<rparr>) = Fin 500000 \<and> (0::real) < 500000 \<and>
   downPayment (defaultInputs\<lparr>downPayment := 0\<rparr>) = Fin 0 \<and> (0::real) \<le> 0 \<and>
   (\<exists>x. downPaymentPercent (calculateResults (defaultInputs\<lparr>downPayment := 0\<rparr>)) = Fin x \<and>
        20 \<le> x)"
  using effective_percent_at_least_20 [of "defaultInputs\<lparr>downPayment := 0\<rparr>" 500000 0]
  by (simp add: defaultInputs_def)

text \<open>
  Claim C10. For a positive price and a down payment that is not negative, the
  mortgage amount is at most 80 percent of the price, and it is not negative when
  the stated down-payment amount does not exceed the price.
\<close>

theorem mortgageAmount_bounds:
  assumes "purchasePrice inputs = Fin p" and "0 < p"
    and "downPayment inputs = Fin d" and "0 \<le> d"
  shows "\<exists>m. mortgageAmount (calculateResults inputs) = Fin m \<and> m \<le> 0.80 * p \<and>
           (downPaymentAmount inputs \<le> purchasePrice inputs \<longrightarrow> 0 \<le> m)"
proof -
  define s where
    "s = (case downPaymentType inputs of Amount \<Rightarrow> d | Percent \<Rightarrow> p * d / 100)"
  have a: "actualDownPayment inputs = Fin (max s (p / 5))"
    unfolding s_def using assms(1,3) by (rule actualDownPayment_finite)
  have st: "downPaymentAmount inputs = Fin s"
    using assms(1,3)
    by (cases "downPaymentType inputs") (simp_all add: downPaymentAmount_def s_def)
  have m: "mortgageAmount (calculateResults inputs) = Fin (p - max s (p / 5))"
    using assms(1) a by (simp add: calculateResults_def Let_def)
  have 1: "p - max s (p / 5) \<le> 0.80 * p"
    by (simp add: max_def)
  have 2: "0 \<le> p - max s (p / 5)" if "downPaymentAmount inputs \<le> purchasePrice inputs"
    using that assms(1,2) st by (auto simp add: less_eq_jsnum_def max_def)
  from m 1 2 show ?thesis by blast
qed

theorem mortgageAmount_bounds_witness:
  "purchasePrice (defaultInputs\<lparr>downPayment := 150000\<rparr>) = Fin 500000 \<and> (0::real) < 500000 \<and>
   downPayment (defaultInputs\<lparr>downPayment := 150000\<rparr>) = Fin 150000 \<and> (0::real) \<le> 150000 \<and>
   downPaymentAmount (defaultInputs\<lparr>downPayment := 150000\<rparr>) \<le>
     purchasePrice (defaultInputs\<lparr>downPayment := 150000\<rparr>) \<and>
   (\<exists>m. mortgageAmount (calculateResults (defaultInputs\<lparr>downPayment := 150000\<rparr>)) = Fin m \<and>
        m \<le> 0.80 * 500000 \<and> 0 \<le> m)"
  using mortgageAmount_bounds [of "defaultInputs\<lparr>downPayment := 150000\<rparr>" 500000 150000]
  by (simp add: defaultInputs_def downPaymentAmount_def less_eq_jsnum_def)

section \<open>Cash-on-cash return\<close>

text \<open>
  Claim C7. The initial investment is the effective down payment plus the closing
  and the renovation costs. The cash-on-cash return is the annual cash flow over
  the initial investment times 100 when the initial investment is positive, and the
  number 0 when the initial investment is 0.
\<close>

theorem cashOnCash_formula:
  "initialInvestment inputs =
     Math_max (case downPaymentType inputs of
                 Amount \<Rightarrow> downPayment inputs
               | Percent \<Rightarrow> purchasePrice inputs * downPayment inputs / 100)
       (0.20 * purchasePrice inputs)
     + closingCosts inputs + renovationCosts inputs \<and>
   (0 < initialInvestment inputs \<longrightarrow>
      cashOnCash (calculateResults inputs) =
        annualCashFlow (calculateResults inputs) / initialInvestment inputs * 100) \<and>
   (initialInvestment inputs = 0 \<longrightarrow> cashOnCash (calculateResults inputs) = Fin 0)"
  by (cases "downPaymentType inputs")
     (simp_all add: calculateResults_def Let_def initialInvestment_def actualDownPayment_def
        downPaymentAmount_def minimumDownPayment_def)

lemma eval_initialInvestment:
  "initialInvestment defaultInputs = Fin 105000"
  by (simp add: initialInvestment_def actualDownPayment_def downPaymentAmount_def
        minimumDownPayment_def Math_max_def defaultInputs_def)

lemma eval_initialInvestment_zero:
  "initialInvestment
     (defaultInputs\<lparr>purchasePrice := Fin 0, downPayment := Fin 0, closingCosts := Fin 0\<rparr>) =
   Fin 0"
  by (simp add: initialInvestment_def actualDownPayment_def downPaymentAmount_def
        minimumDownPayment_def Math_max_def defaultInputs_def)

theorem cashOnCash_formula_witness:
  "0 < initialInvestment defaultInputs \<and>
   cashOnCash (calculateResults defaultInputs) =
     annualCashFlow (calculateResults defaultInputs) / Fin 105000 * 100 \<and>
   initialInvestment
     (defaultInputs\<lparr>purchasePrice := Fin 0, downPayment := Fin 0, closingCosts := Fin 0\<rparr>) = 0 \<and>
   cashOnCash (calculateResults
     (defaultInputs\<lparr>purchasePrice := Fin 0, downPayment := Fin 0, closingCosts := Fin 0\<rparr>)) =
     Fin 0"
  using cashOnCash_formula [of defaultInputs, THEN conjunct2]
    cashOnCash_formula
      [of "defaultInputs\<lparr>purchasePrice := Fin 0, downPayment := Fin 0, closingCosts := Fin 0\<rparr>",
       THEN conjunct2]
  by (simp add: eval_initialInvestment eval_initialInvestment_zero)

section \<open>Round trip of the down-payment unit\<close>

lemma Math_round_Fin: "Math_round (Fin x) = Fin (of_int \<lfloor>x + 1 / 2\<rfloor>)"
  by (simp add: Math_round_def)

lemma round_half_up_bounds:
  fixes x :: real
  shows "x - 1 / 2 < of_int \<lfloor>x + 1 / 2\<rfloor>" and "of_int \<lfloor>x + 1 / 2\<rfloor> \<le> x + 1 / 2"
  by linarith+

lemma to_percent:
  assumes "purchasePrice inputs = Fin p" and "p \<noteq> 0" and "downPayment inputs = Fin d"
  shows "handleInputChange_downPaymentType Percent inputs =
     inputs\<lparr>downPaymentType := Percent,
            downPayment := Fin (of_int \<lfloor>d / p * 100 + 1 / 2\<rfloor>)\<rparr>"
  using assms by (simp add: handleInputChange_downPaymentType_def Math_round_Fin)

lemma to_amount:
  assumes "purchasePrice inputs = Fin p" and "downPayment inputs = Fin q"
  shows "handleInputChange_downPaymentType Amount inputs =
     inputs\<lparr>downPaymentType := Amount,
            downPayment := Fin (of_int \<lfloor>p * (q / 100) / 100 + 1 / 2\<rfloor> * 100)\<rparr>"
  using assms by (simp add: handleInputChange_downPaymentType_def Math_round_Fin)

text \<open>
  Claim C9. For a positive price and a down-payment amount between 0 and the
  price, switching the unit to percent and back to amount, the price unchanged,
  gives the original amount again within the tolerance of the two roundings: the
  percentage is rounded to a whole number between 0 and 100, at most half a
  point from the exact percentage, the amount is rounded to whole hundreds, at
  most 50 from the amount of that percentage, so the result is within half a
  percent of the price plus 50 of the original amount.
\<close>

theorem down_payment_round_trip:
  assumes "purchasePrice inputs = Fin p" and "0 < p"
    and "downPayment inputs = Fin d" and "0 \<le> d" and "d \<le> p"
  shows "\<exists>q d'.
     downPayment (handleInputChange_downPaymentType Percent inputs) = Fin q \<and>
     0 \<le> q \<and> q \<le> 100 \<and> \<bar>q - d / p * 100\<bar> \<le> 1 / 2 \<and>
     downPayment (handleInputChange_downPaymentType Amount
       (handleInputChange_downPaymentType Percent inputs)) = Fin d' \<and>
     \<bar>d' - p * q / 100\<bar> \<le> 50 \<and>
     \<bar>d' - d\<bar> \<le> p / 200 + 50"
proof -
  define t where "t = d / p * 100"
  define q :: real where "q = of_int \<lfloor>t + 1 / 2\<rfloor>"
  define x where "x = p * (q / 100) / 100"
  define m :: real where "m = of_int \<lfloor>x + 1 / 2\<rfloor>"
  let ?i1 = "handleInputChange_downPaymentType Percent inputs"
  let ?i2 = "handleInputChange_downPaymentType Amount ?i1"
  have i1: "?i1 = inputs\<lparr>downPaymentType := Percent, downPayment := Fin q\<rparr>"
    unfolding q_def t_def using assms(1,2,3) by (intro to_percent) simp_all
  then have pp1: "purchasePrice ?i1 = Fin p" and dp1: "downPayment ?i1 = Fin q"
    using assms(1) by simp_all
  have i2: "?i2 = ?i1\<lparr>downPaymentType := Amount, downPayment := Fin (m * 100)\<rparr>"
    unfolding m_def x_def using pp1 dp1 by (rule to_amount)
  then have dp2: "downPayment ?i2 = Fin (m * 100)" by simp
  have q1: "t - 1 / 2 < q" and q2: "q \<le> t + 1 / 2"
    unfolding q_def by (rule round_half_up_bounds)+
  have m1: "x - 1 / 2 < m" and m2: "m \<le> x + 1 / 2"
    unfolding m_def by (rule round_half_up_bounds)+
  have t0: "0 \<le> t" and t100: "t \<le> 100"
    using assms(2,4,5) by (simp_all add: t_def pos_divide_le_eq)
  have "(0::int) \<le> \<lfloor>t + 1 / 2\<rfloor>" using t0 by simp
  then have q0: "0 \<le> q" by (simp add: q_def)
  have "\<lfloor>t + 1 / 2\<rfloor> \<le> (100::int)" using t100 by (simp add: floor_le_iff)
  then have "q \<le> of_int (100::int)" unfolding q_def by (rule of_int_le_iff [THEN iffD2])
  then have q100: "q \<le> 100" by simp
  have pt: "p * t = 100 * d"
    using assms(2) by (simp add: t_def)
  have "p * (q - t) \<le> p * (1 / 2)"
    using q2 assms(2) by (intro mult_left_mono) simp_all
  then have u: "p * q \<le> 100 * d + p / 2"
    using pt by (simp add: algebra_simps)
  have "p * (- 1 / 2) \<le> p * (q - t)"
    using q1 assms(2) by (intro mult_left_mono) simp_all
  then have l: "100 * d - p / 2 \<le> p * q"
    using pt by (simp add: algebra_simps)
  have hx: "100 * x = p * q / 100" by (simp add: x_def)
  have "\<bar>q - t\<bar> \<le> 1 / 2"
    using q1 q2 by linarith
  then have a: "\<bar>q - d / p * 100\<bar> \<le> 1 / 2"
    by (simp only: t_def)
  have b': "\<bar>m * 100 - 100 * x\<bar> \<le> 50"
    using m1 m2 by linarith
  then have b: "\<bar>m * 100 - p * q / 100\<bar> \<le> 50"
    by (simp only: hx)
  have c': "\<bar>100 * x - d\<bar> \<le> p / 200"
    using u l hx by linarith
  have c: "\<bar>m * 100 - d\<bar> \<le> p / 200 + 50"
    using b' c' by linarith
  from dp1 dp2 q0 q100 a b c show ?thesis by blast
qed

theorem down_payment_round_trip_witness:
  "purchasePrice (defaultInputs\<lparr>downPayment := 123456\<rparr>) = Fin 500000 \<and> (0::real) < 500000 \<and>
   downPayment (defaultInputs\<lparr>downPayment := 123456\<rparr>) = Fin 123456 \<and>
   (0::real) \<le> 123456 \<and> (123456::real) \<le> 500000 \<and>
   downPayment (handleInputChange_downPaymentType Percent
     (defaultInputs\<lparr>downPayment := 123456\<rparr>)) = Fin 25 \<and>
   downPayment (handleInputChange_downPaymentType Amount
     (handleInputChange_downPaymentType Percent
       (defaultInputs\<lparr>downPayment := 123456\<rparr>))) = Fin 125000 \<and>
   \<bar>125000 - 123456\<bar> \<le> (500000::real) / 200 + 50"
proof -
  show ?thesis
    using down_payment_round_trip [of "defaultInputs\<lparr>downPayment := 123456\<rparr>" 500000 123456]
    by (simp add: defaultInputs_def handleInputChange_downPaymentType_def Math_round_Fin)
qed

end
